theory Spec2Isabelle
  imports Complex_Main
begin

section \<open>Values exchanged with the outside world\<close>

text \<open>
  Request bodies and webhook payloads are JSON documents decoded into Python values.
  A Python float is kept apart from an int, since \<open>int()\<close> and truthiness treat them
  differently; a finite float is represented by the rational it denotes.
\<close>

datatype pyfloat = Finite rat | PosInf | NegInf | NaN

datatype jv =
    JNull
  | JBool bool
  | JInt int
  | JFloat pyfloat
  | JStr string
  | JList "jv list"
  | JDict "(string \<times> jv) list"

text \<open>Python truthiness (\<open>bool(v)\<close>, as used by \<open>if v\<close>, \<open>not v\<close>, \<open>a or b\<close>, \<open>a and b\<close>).\<close>

fun truthy :: "jv \<Rightarrow> bool" where
  "truthy JNull = False"
| "truthy (JBool b) = b"
| "truthy (JInt n) = (n \<noteq> 0)"
| "truthy (JFloat (Finite q)) = (q \<noteq> 0)"
| "truthy (JFloat _) = True"
| "truthy (JStr s) = (s \<noteq> [])"
| "truthy (JList xs) = (xs \<noteq> [])"
| "truthy (JDict kvs) = (kvs \<noteq> [])"

text \<open>\<open>len(v)\<close>: \<open>None\<close> stands for the \<open>TypeError\<close> raised on a value without a length.\<close>

fun py_len :: "jv \<Rightarrow> nat option" where
  "py_len (JStr s) = Some (length s)"
| "py_len (JList xs) = Some (length xs)"
| "py_len (JDict kvs) = Some (length kvs)"
| "py_len _ = None"

type_synonym pydict = "string \<rightharpoonup> jv"

section \<open>Circuit breaker (routes/chat.py, module globals)\<close>

text \<open>
  The module globals \<open>webhook_failures\<close> and \<open>last_failure_time\<close>, together with a trace
  of what the process did to the outside: the envelopes handed to \<open>requests.post\<close> and the
  delays passed to \<open>time.sleep\<close>, both oldest first. A reading of \<open>time.time()\<close> is a
  parameter of the function that takes it.
\<close>

record world =
  webhook_failures :: int
  last_failure_time :: "real option"
  posts :: "pydict list"
  sleeps :: "int list"

definition MAX_FAILURES_BEFORE_CIRCUIT_BREAK :: int where
  "MAX_FAILURES_BEFORE_CIRCUIT_BREAK = 5"

definition CIRCUIT_BREAK_DURATION :: real where
  "CIRCUIT_BREAK_DURATION = 60"

text \<open>
  \<open>is_circuit_broken()\<close>. The test \<open>last_failure_time and ...\<close> is a truthiness test: it
  fails for \<open>None\<close> and also for the float \<open>0.0\<close>.
\<close>

definition is_circuit_broken :: "real \<Rightarrow> world \<Rightarrow> bool \<times> world" where
  "is_circuit_broken now s =
     (if webhook_failures s \<ge> MAX_FAILURES_BEFORE_CIRCUIT_BREAK then
        (if (case last_failure_time s of
               None \<Rightarrow> False
             | Some t \<Rightarrow> t \<noteq> 0 \<and> now - t < CIRCUIT_BREAK_DURATION)
         then (True, s)
         else (False, s\<lparr>webhook_failures := 0, last_failure_time := None\<rparr>))
      else (False, s))"

text \<open>\<open>record_webhook_result(success)\<close>; \<open>now\<close> is read on the failure branch only.\<close>

definition record_webhook_result :: "real \<Rightarrow> bool \<Rightarrow> world \<Rightarrow> world" where
  "record_webhook_result now success s =
     (if success then s\<lparr>webhook_failures := max 0 (webhook_failures s - 1)\<rparr>
      else s\<lparr>webhook_failures := webhook_failures s + 1, last_failure_time := Some now\<rparr>)"

section \<open>Webhook delivery (routes/chat.py)\<close>

text \<open>
  \<open>validate_webhook_data(data)\<close>. \<open>json.dumps(data, ensure_ascii=False, default=str)\<close>
  cannot fail on a decoded JSON document, so the first step has no branch here. An
  exception inside the body (\<open>len\<close> of a number or a boolean) is caught and gives
  \<open>False\<close>.
\<close>

definition required_fields :: "string list" where
  "required_fields = [''event_type'', ''phone_number'', ''timestamp'']"

definition field_present :: "pydict \<Rightarrow> string \<Rightarrow> bool" where
  "field_present data field = (case data field of None \<Rightarrow> False | Some v \<Rightarrow> v \<noteq> JNull)"

definition validate_webhook_data :: "pydict \<Rightarrow> bool" where
  "validate_webhook_data data =
     (if \<not> list_all (field_present data) required_fields then False
      else
        (let phone = (case data ''phone_number'' of None \<Rightarrow> JStr [] | Some v \<Rightarrow> v) in
         if \<not> truthy phone then False
         else (case py_len phone of
                 None \<Rightarrow> False
               | Some n \<Rightarrow> \<not> n < 8)))"

text \<open>
  What \<open>requests.post\<close> followed by \<open>response.raise_for_status()\<close> can do: answer with a
  status code, or raise. \<open>raise_for_status\<close> raises \<open>HTTPError\<close> for the codes 400 to 599.
\<close>

datatype http_outcome =
    Responded nat
  | Timeout
  | ConnectionError
  | RequestException
  | OtherException

definition raises_for_status :: "nat \<Rightarrow> bool" where
  "raises_for_status code = (400 \<le> code \<and> code < 600)"

text \<open>
  What one call of \<open>send_webhook\<close> reads from its environment: the configured URL, the
  clock inside \<open>is_circuit_broken\<close>, \<open>datetime.now().isoformat()\<close>, the fate of the POST
  if one is issued, and the clock inside \<open>record_webhook_result(False)\<close>.
\<close>

record call_env =
  webhook_url :: "string option"
  now_check :: real
  now_iso :: string
  outcome :: http_outcome
  now_fail :: real

definition build_envelope :: "jv \<Rightarrow> jv \<Rightarrow> string \<Rightarrow> pydict \<Rightarrow> pydict" where
  "build_envelope webhook_type phone_number stamp data =
     [''event_type'' \<mapsto> webhook_type,
      ''phone_number'' \<mapsto> phone_number,
      ''timestamp'' \<mapsto> JStr stamp] ++ data"

definition send_webhook :: "call_env \<Rightarrow> jv \<Rightarrow> jv \<Rightarrow> pydict \<Rightarrow> world \<Rightarrow> bool \<times> world" where
  "send_webhook env webhook_type phone_number data s =
     (case webhook_url env of
        None \<Rightarrow> (False, s)
      | Some url \<Rightarrow>
          if url = [] then (False, s)
          else
            (case is_circuit_broken (now_check env) s of
               (True, s1) \<Rightarrow> (False, s1)
             | (False, s1) \<Rightarrow>
                 (let webhook_data = build_envelope webhook_type phone_number (now_iso env) data in
                  if \<not> validate_webhook_data webhook_data then (False, s1)
                  else
                    (let s2 = s1\<lparr>posts := posts s1 @ [webhook_data]\<rparr> in
                     case outcome env of
                       Responded code \<Rightarrow>
                         if raises_for_status code
                         then (False, record_webhook_result (now_fail env) False s2)
                         else (True, record_webhook_result (now_fail env) True s2)
                     | _ \<Rightarrow> (False, record_webhook_result (now_fail env) False s2)))))"



section \<open>Background retry (routes/chat.py, \<open>send_webhook_with_retry\<close>)\<close>





section \<open>Python built-ins used by the storage layer\<close>

datatype py_error = AttributeError | TypeError | ValueError | OverflowError | RuntimeError

text \<open>
  \<open>str.strip()\<close> removes the characters for which \<open>str.isspace()\<close> holds from both ends.
  Among the code points below 256 these are 9 to 13, 28 to 32, 133 and 160.
\<close>

definition is_space :: "char \<Rightarrow> bool" where
  "is_space c =
     (let n = (of_char c :: nat) in (9 \<le> n \<and> n \<le> 13) \<or> (28 \<le> n \<and> n \<le> 32) \<or> n = 133 \<or> n = 160)"

definition py_strip :: "string \<Rightarrow> string" where
  "py_strip s = rev (dropWhile is_space (rev (dropWhile is_space s)))"

text \<open>
  \<open>int(v)\<close>. Around a string \<open>int\<close> skips less than \<open>str.strip()\<close> removes: among the
  code points below 256 only 9 to 13, 32, 133 and 160 (28 to 31 are not skipped). What
  is left may carry one sign and is a run of decimal digits in which single underscores
  may separate digits; anything else is a \<open>ValueError\<close>, and so is a string of more than
  4300 digit characters (the interpreter's default \<open>int_max_str_digits\<close>; leading zeros
  count, sign, underscores and the skipped space do not). A finite float is truncated
  towards zero, \<open>nan\<close> is a \<open>ValueError\<close> and an infinity an \<open>OverflowError\<close>. \<open>None\<close>,
  lists and dicts are a \<open>TypeError\<close>.
\<close>

definition is_int_space :: "char \<Rightarrow> bool" where
  "is_int_space c =
     (let n = (of_char c :: nat) in (9 \<le> n \<and> n \<le> 13) \<or> n = 32 \<or> n = 133 \<or> n = 160)"

definition int_strip :: "string \<Rightarrow> string" where
  "int_strip s = rev (dropWhile is_int_space (rev (dropWhile is_int_space s)))"

definition INT_MAX_STR_DIGITS :: nat where
  "INT_MAX_STR_DIGITS = 4300"

definition digit_val :: "char \<Rightarrow> int option" where
  "digit_val c =
     (let n = (of_char c :: nat) in if 48 \<le> n \<and> n \<le> 57 then Some (int n - 48) else None)"

fun parse_digits :: "int \<Rightarrow> string \<Rightarrow> int option" where
  "parse_digits acc [] = Some acc"
| "parse_digits acc [c] =
     (case digit_val c of None \<Rightarrow> None | Some v \<Rightarrow> Some (10 * acc + v))"
| "parse_digits acc (c # d # ds) =
     (if c = CHR ''_'' then
        (case digit_val d of None \<Rightarrow> None | Some v \<Rightarrow> parse_digits (10 * acc + v) ds)
      else (case digit_val c of None \<Rightarrow> None | Some v \<Rightarrow> parse_digits (10 * acc + v) (d # ds)))"

definition digit_count :: "string \<Rightarrow> nat" where
  "digit_count s = length (filter (\<lambda>c. case digit_val c of None \<Rightarrow> False | Some v \<Rightarrow> True) s)"

definition parse_unsigned :: "string \<Rightarrow> int option" where
  "parse_unsigned s =
     (case s of
        [] \<Rightarrow> None
      | c # cs \<Rightarrow>
          if digit_count s > INT_MAX_STR_DIGITS then None
          else (case digit_val c of None \<Rightarrow> None | Some v \<Rightarrow> parse_digits v cs))"

definition py_int_str :: "string \<Rightarrow> int option" where
  "py_int_str s =
     (case int_strip s of
        [] \<Rightarrow> None
      | c # cs \<Rightarrow>
          if c = CHR ''-'' then map_option uminus (parse_unsigned cs)
          else if c = CHR ''+'' then parse_unsigned cs
          else parse_unsigned (c # cs))"

definition trunc :: "rat \<Rightarrow> int" where
  "trunc q = (if 0 \<le> q then \<lfloor>q\<rfloor> else \<lceil>q\<rceil>)"

fun py_int :: "jv \<Rightarrow> py_error + int" where
  "py_int (JInt n) = Inr n"
| "py_int (JBool b) = Inr (if b then 1 else 0)"
| "py_int (JFloat (Finite q)) = Inr (trunc q)"
| "py_int (JFloat NaN) = Inl ValueError"
| "py_int (JFloat _) = Inl OverflowError"
| "py_int (JStr s) = (case py_int_str s of None \<Rightarrow> Inl ValueError | Some n \<Rightarrow> Inr n)"
| "py_int _ = Inl TypeError"

text \<open>\<open>a or b\<close> on values.\<close>

definition py_or :: "jv \<Rightarrow> jv \<Rightarrow> jv" where
  "py_or a b = (if truthy a then a else b)"

section \<open>Storage layer (db/models.py, db/operations.py)\<close>

text \<open>
  The dictionary built by \<open>MessageOperations._clean_attachment_data\<close>, whose keys are also
  the attachment columns of \<open>Message\<close>. A Python \<open>None\<close> is \<open>None\<close> here, and \<open>JNull\<close> in
  \<open>attachment_full_url\<close>, which holds whatever value the caller passed.
\<close>

record attachment_data =
  attachment_url :: "string option"
  attachment_full_url :: jv
  attachment_name :: "string option"
  attachment_type :: "string option"
  attachment_size :: "int option"

definition no_attachment :: attachment_data where
  "no_attachment =
     \<lparr>attachment_url = None, attachment_full_url = JNull, attachment_name = None,
      attachment_type = None, attachment_size = None\<rparr>"

definition type_names :: "(string \<times> string) list" where
  "type_names =
     [(''image'', ''image''), (''video'', ''video''), (''audio'', ''audio''),
      (''pdf'', ''document.pdf''), (''document'', ''document''), (''file'', ''file'')]"

definition valid_types :: "string list" where
  "valid_types = [''image'', ''video'', ''audio'', ''pdf'', ''document'', ''file'']"

text \<open>
  \<open>type_names.get(attachment_type, 'attachment')\<close>: a list or a dict is unhashable and
  raises \<open>TypeError\<close>; a key that is not a string matches none of the keys.
\<close>

fun fallback_name :: "jv \<Rightarrow> py_error + string" where
  "fallback_name (JStr t) =
     (case map_of type_names t of None \<Rightarrow> Inr ''attachment'' | Some n \<Rightarrow> Inr n)"
| "fallback_name (JList _) = Inl TypeError"
| "fallback_name (JDict _) = Inl TypeError"
| "fallback_name _ = Inr ''attachment''"

text \<open>The name branch: \<open>attachment_name.strip()\<close> needs a string.\<close>

definition clean_name :: "jv \<Rightarrow> jv \<Rightarrow> py_error + string" where
  "clean_name name ty =
     (if truthy name then
        (case name of JStr n \<Rightarrow> Inr (py_strip n) | _ \<Rightarrow> Inl AttributeError)
      else fallback_name ty)"

text \<open>The type branch: \<open>attachment_type and attachment_type in valid_types\<close>.\<close>

definition clean_type :: "jv \<Rightarrow> string" where
  "clean_type ty =
     (case ty of
        JStr t \<Rightarrow> if t \<noteq> [] \<and> t \<in> set valid_types then t else ''file''
      | _ \<Rightarrow> ''file'')"

text \<open>
  The size branch: \<open>ValueError\<close> and \<open>TypeError\<close> from \<open>int()\<close> are caught and give
  \<open>None\<close>; an \<open>OverflowError\<close> is not caught here.
\<close>

definition clean_size :: "jv \<Rightarrow> py_error + int option" where
  "clean_size sz =
     (if sz = JNull then Inr None
      else (case py_int sz of
              Inr n \<Rightarrow> Inr (if n > 0 then Some n else None)
            | Inl ValueError \<Rightarrow> Inr None
            | Inl TypeError \<Rightarrow> Inr None
            | Inl e \<Rightarrow> Inl e))"

text \<open>\<open>MessageOperations._clean_attachment_data\<close>; \<open>Inl\<close> is an exception that leaves it.\<close>

definition clean_attachment_data ::
  "jv \<Rightarrow> jv \<Rightarrow> jv \<Rightarrow> jv \<Rightarrow> jv \<Rightarrow> py_error + attachment_data" where
  "clean_attachment_data url full_url name ty sz =
     (if \<not> truthy url then Inr no_attachment
      else
        (case url of
           JStr u \<Rightarrow>
             (case clean_name name ty of
                Inl e \<Rightarrow> Inl e
              | Inr n \<Rightarrow>
                  (case clean_size sz of
                     Inl e \<Rightarrow> Inl e
                   | Inr n_bytes \<Rightarrow>
                       Inr \<lparr>attachment_url = Some (py_strip u),
                            attachment_full_url = py_or full_url url,
                            attachment_name = Some n,
                            attachment_type = Some (clean_type ty),
                            attachment_size = n_bytes\<rparr>))
         | _ \<Rightarrow> Inl AttributeError))"

text \<open>
  The tables. \<open>phone_id\<close> and \<open>msg_id\<close> are the \<open>id\<close> columns, \<open>msg_type\<close> is the \<open>type\<close>
  column; the attachment columns of a message are grouped in \<open>attachment\<close>; \<open>created_at\<close>
  is left out.
\<close>

record PhoneNumber =
  phone_id :: nat
  number :: string
  ai_active :: bool

record Message =
  msg_id :: nat
  phone_number_id :: nat
  content :: string
  msg_type :: string
  attachment :: attachment_data

text \<open>
  The database is a collaborator. \<open>available\<close> says whether it can be reached during
  the request: when it is \<open>False\<close> every query and commit raises, and the operations
  catch that as the source does. \<open>stored_number\<close> and \<open>stored_message\<close> say what the
  configured engine does with the values of a new row at the commit: \<open>None\<close> when it
  refuses them, so that the commit raises, and otherwise the values that the row holds
  when it is read back (an engine may store a value in another form than it was given,
  cut to the length of the column for one). For a message they are given for the
  \<open>content\<close> and the attachment columns; \<open>type\<close> holds one of three short constants and
  the other columns are integers set by the code or the engine. \<open>phone_id_seq\<close> and
  \<open>message_id_seq\<close> are the last ids handed out: a new row gets the next one, so an id
  is not used again after \<open>delete_phone\<close>. (Whether a refused insert uses up an id is
  left open: here it does not.)
\<close>

record db =
  phone_numbers :: "PhoneNumber list"
  messages :: "Message list"
  available :: bool
  phone_id_seq :: nat
  message_id_seq :: nat
  stored_number :: "string \<Rightarrow> string option"
  stored_message :: "string \<Rightarrow> attachment_data \<Rightarrow> (string \<times> attachment_data) option"

text \<open>
  The engine of the examples. It enforces the columns that db/models.py declares,
  \<open>number String(20)\<close>, \<open>attachment_url\<close> and \<open>attachment_full_url String(500)\<close>,
  \<open>attachment_name String(255)\<close>, \<open>attachment_type String(50)\<close> and
  \<open>attachment_size Integer\<close> (32 bits wide), to the letter: a row whose strings hold no
  NUL character and fit their columns, whose \<open>attachment_full_url\<close> is a string or
  \<open>None\<close> and whose size fits is stored as given, and every other row is refused. The
  default engine, PostgreSQL (\<open>DATABASE_URL\<close> in db/connection.py), also stores the rows
  of the first kind as given, and also refuses a number of more than 20 characters
  whose excess is not all blanks, and a size beyond 32 bits.
\<close>

definition INTEGER_MAX :: int where
  "INTEGER_MAX = 2147483647"

definition fits :: "nat \<Rightarrow> string \<Rightarrow> bool" where
  "fits n s = (CHR 0x00 \<notin> set s \<and> length s \<le> n)"

definition fits_opt :: "nat \<Rightarrow> string option \<Rightarrow> bool" where
  "fits_opt n v = (case v of None \<Rightarrow> True | Some s \<Rightarrow> fits n s)"

definition checked_number :: "string \<Rightarrow> string option" where
  "checked_number n = (if fits 20 n then Some n else None)"

definition checked_message ::
  "string \<Rightarrow> attachment_data \<Rightarrow> (string \<times> attachment_data) option" where
  "checked_message c a =
     (if CHR 0x00 \<notin> set c
         \<and> fits_opt 500 (attachment_url a)
         \<and> (case attachment_full_url a of
               JNull \<Rightarrow> True | JStr f \<Rightarrow> fits 500 f | _ \<Rightarrow> False)
         \<and> fits_opt 255 (attachment_name a)
         \<and> fits_opt 50 (attachment_type a)
         \<and> (case attachment_size a of
               None \<Rightarrow> True | Some n \<Rightarrow> - INTEGER_MAX - 1 \<le> n \<and> n \<le> INTEGER_MAX)
      then Some (c, a) else None)"

text \<open>\<open>Message.validate_message_type\<close>.\<close>

definition validate_message_type :: "string \<Rightarrow> bool" where
  "validate_message_type t = (t \<in> set [''lead'', ''user'', ''ai''])"

text \<open>\<open>PhoneOperations.get_phone_by_number\<close>.\<close>

definition get_phone_by_number :: "string \<Rightarrow> db \<Rightarrow> PhoneNumber option" where
  "get_phone_by_number n d =
     (if available d then find (\<lambda>p. number p = n) (phone_numbers d) else None)"

text \<open>
  \<open>PhoneOperations.create_phone_number\<close>. A commit that raises is rolled back and the
  result is \<open>None\<close>; it raises when the engine refuses the number and when the number
  it would store is already there (\<open>unique=True\<close>). The object returned is read back
  from the database after the commit.
\<close>

definition create_phone_number :: "string \<Rightarrow> db \<Rightarrow> PhoneNumber option \<times> db" where
  "create_phone_number n d =
     (case get_phone_by_number n d of
        Some existing_phone \<Rightarrow> (Some existing_phone, d)
      | None \<Rightarrow>
          if available d then
            (case stored_number d n of
               None \<Rightarrow> (None, d)
             | Some kept \<Rightarrow>
                 if kept \<in> set (map number (phone_numbers d)) then (None, d)
                 else
                   (let phone = \<lparr>phone_id = Suc (phone_id_seq d), number = kept,
                                 ai_active = False\<rparr>
                    in (Some phone,
                        d\<lparr>phone_numbers := phone_numbers d @ [phone],
                          phone_id_seq := Suc (phone_id_seq d)\<rparr>)))
          else (None, d))"

text \<open>
  \<open>MessageOperations.create_message\<close>. \<open>content\<close> is a string or \<open>None\<close>. An exception out
  of the cleaner, or a commit of the message that raises, is caught by the outer
  \<open>except\<close>: the result is \<open>None\<close>, and a phone number committed before it stays. The
  object returned is read back from the database after the commit.
\<close>

definition create_message ::
  "string \<Rightarrow> string option \<Rightarrow> string \<Rightarrow> jv \<Rightarrow> jv \<Rightarrow> jv \<Rightarrow> jv \<Rightarrow> jv \<Rightarrow> db \<Rightarrow> Message option \<times> db" where
  "create_message phone_number content_in message_type url full_url name ty sz d =
     (if \<not> validate_message_type message_type then (None, d)
      else if (content_in = None \<or> content_in = Some []) \<and> \<not> truthy url then (None, d)
      else
        (case (case get_phone_by_number phone_number d of
                 Some phone \<Rightarrow> (Some phone, d)
               | None \<Rightarrow> create_phone_number phone_number d) of
           (None, d1) \<Rightarrow> (None, d1)
         | (Some phone, d1) \<Rightarrow>
             (case clean_attachment_data url full_url name ty sz of
                Inl e \<Rightarrow> (None, d1)
              | Inr clean \<Rightarrow>
                  if available d1 then
                    (case stored_message d1 (case content_in of None \<Rightarrow> [] | Some c \<Rightarrow> c)
                            clean of
                       None \<Rightarrow> (None, d1)
                     | Some (kept_content, kept) \<Rightarrow>
                         (let message = \<lparr>msg_id = Suc (message_id_seq d1),
                                         phone_number_id = phone_id phone,
                                         content = kept_content,
                                         msg_type = message_type,
                                         attachment = kept\<rparr>
                          in (Some message,
                              d1\<lparr>messages := messages d1 @ [message],
                                 message_id_seq := Suc (message_id_seq d1)\<rparr>)))
                  else (None, d1))))"

section \<open>Request handlers (routes/chat.py)\<close>

text \<open>
  A decoded request body, as the handlers read it. \<open>rq_phone_number\<close> is
  \<open>data.get('phone_number')\<close>: a string, or \<open>None\<close> when the key is missing or null.
  \<open>rq_content\<close> is \<open>data.get('content', '')\<close> and \<open>rq_message\<close> is
  \<open>data.get('message', '')\<close>: a string, the empty string when the key is missing, and
  \<open>None\<close> when the value is null. The attachment keys hold any JSON value, \<open>JNull\<close> when
  missing.
\<close>

record body =
  rq_phone_number :: "string option"
  rq_content :: "string option"
  rq_message :: "string option"
  rq_attachment_url :: jv
  rq_attachment_full_url :: jv
  rq_attachment_name :: jv
  rq_attachment_type :: jv
  rq_attachment_size :: jv

text \<open>A background thread started by \<open>send_webhook_with_retry\<close>, with its arguments.\<close>

record retry_job =
  job_webhook_type :: jv
  job_phone_number :: jv
  job_data :: pydict
  job_max_retries :: int

text \<open>
  The process: the database, the breaker with its trace, the threads started, the
  upload directory \<open>static/uploads\<close>, and the fate of the coming calls of
  \<open>Thread.start()\<close>. In \<open>uploads\<close> a file name is mapped to the file's contents, one \<open>char\<close>
  per byte; the empty name stands for the directory itself (\<open>os.path.join(upload_dir, '')\<close>),
  present once the directory exists, with as many bytes as \<open>os.path.getsize\<close> reports for
  it. \<open>thread_starts\<close> lists, in order, whether the next calls of \<open>Thread.start()\<close>
  succeed; once the list is used up they succeed.
\<close>

record app =
  store :: db
  hook :: world
  scheduled :: "retry_job list"
  uploads :: "string \<rightharpoonup> string"
  thread_starts :: "bool list"

text \<open>
  \<open>send_webhook_with_retry\<close> only starts the thread that will run \<open>_retry_webhook\<close>.
  \<open>Thread.start()\<close> raises \<open>RuntimeError\<close> when no thread can be started; the exception
  leaves the function, here as \<open>Some RuntimeError\<close>.
\<close>

definition send_webhook_with_retry ::
  "jv \<Rightarrow> jv \<Rightarrow> pydict \<Rightarrow> int \<Rightarrow> app \<Rightarrow> py_error option \<times> app" where
  "send_webhook_with_retry webhook_type phone_number data max_retries a =
     (let job = \<lparr>job_webhook_type = webhook_type, job_phone_number = phone_number,
                 job_data = data, job_max_retries = max_retries\<rparr>
      in case thread_starts a of
           [] \<Rightarrow> (None, a\<lparr>scheduled := scheduled a @ [job]\<rparr>)
         | started # rest \<Rightarrow>
             if started
             then (None, a\<lparr>scheduled := scheduled a @ [job], thread_starts := rest\<rparr>)
             else (Some RuntimeError, a\<lparr>thread_starts := rest\<rparr>))"

text \<open>
  Whether the call of \<open>Thread.start()\<close> that comes \<open>k\<close> calls after the next one
  succeeds (\<open>k = 0\<close> is the next call).
\<close>

definition start_succeeds :: "nat \<Rightarrow> app \<Rightarrow> bool" where
  "start_succeeds k a = (if k < length (thread_starts a) then thread_starts a ! k else True)"

text \<open>The JSON answer of a handler: the HTTP status and the fields the claims read.\<close>

record response =
  status :: nat
  success :: bool
  message :: "Message option"
  webhook_sent :: "bool option"

definition error_response :: "nat \<Rightarrow> response" where
  "error_response code = \<lparr>status = code, success = False, message = None, webhook_sent = None\<rparr>"

definition opt_str :: "string option \<Rightarrow> jv" where
  "opt_str s = (case s of None \<Rightarrow> JNull | Some x \<Rightarrow> JStr x)"

definition falsy_str :: "string option \<Rightarrow> bool" where
  "falsy_str s = (s = None \<or> s = Some [])"

text \<open>The payload that \<open>send_message\<close> hands to the webhook.\<close>

definition message_webhook_data :: "body \<Rightarrow> string \<Rightarrow> PhoneNumber \<Rightarrow> Message \<Rightarrow> string \<Rightarrow> pydict" where
  "message_webhook_data b message_type phone m email =
     [''message'' \<mapsto> opt_str (rq_content b),
      ''message_type'' \<mapsto> JStr message_type,
      ''ai_active'' \<mapsto> JBool (ai_active phone),
      ''attachment_url'' \<mapsto> rq_attachment_url b,
      ''attachment_full_url'' \<mapsto> rq_attachment_full_url b,
      ''attachment_name'' \<mapsto> rq_attachment_name b,
      ''attachment_type'' \<mapsto> rq_attachment_type b,
      ''attachment_size'' \<mapsto> rq_attachment_size b,
      ''message_id'' \<mapsto> JInt (int (msg_id m)),
      ''sent_by'' \<mapsto> JStr email]"

text \<open>
  Inside the webhook step, \<open>if attachment_type:\<close> guards a dictionary lookup
  \<open>{...}.get(attachment_type, ...)\<close>, which raises \<open>TypeError\<close> when the value is a list or
  a dict (unhashable).
\<close>

fun unhashable :: "jv \<Rightarrow> bool" where
  "unhashable (JList _) = True"
| "unhashable (JDict _) = True"
| "unhashable _ = False"

definition emoji_lookup_raises :: "jv \<Rightarrow> bool" where
  "emoji_lookup_raises ty = (truthy ty \<and> unhashable ty)"

text \<open>
  The handler's \<open>except Exception as webhook_error\<close> block: one more try to start a retry
  thread, now with \<open>max_retries=1\<close>. When that start succeeds \<open>webhook_sent\<close> becomes
  \<open>True\<close>; when it raises too, the exception is dropped and \<open>webhook_sent\<close> keeps the
  \<open>False\<close> it was initialised with.
\<close>

definition retry_after_exception ::
  "jv \<Rightarrow> pydict \<Rightarrow> Message \<Rightarrow> app \<Rightarrow> response \<times> app" where
  "retry_after_exception phone_number webhook_data m a =
     (case send_webhook_with_retry (JStr ''message'') phone_number webhook_data 1 a of
        (None, a1) \<Rightarrow>
          (\<lparr>status = 200, success = True, message = Some m, webhook_sent = Some True\<rparr>, a1)
      | (Some e, a1) \<Rightarrow>
          (\<lparr>status = 200, success = True, message = Some m, webhook_sent = Some False\<rparr>, a1))"

text \<open>
  The route \<open>/chat/send-message\<close>. \<open>None\<close> for the body stands for JSON that does not
  parse or is empty; \<open>email\<close> is \<open>current_user.email\<close>. \<open>send_webhook\<close> raises nothing,
  so there are two ways into the handler's \<open>except\<close> around the webhook step: the lookup
  above, before the immediate attempt is made, and a \<open>Thread.start()\<close> that raises when
  the retry is scheduled after a failed immediate attempt.
\<close>

definition send_message :: "call_env \<Rightarrow> string \<Rightarrow> body option \<Rightarrow> app \<Rightarrow> response \<times> app" where
  "send_message env email data a =
     (case data of
        None \<Rightarrow> (error_response 400, a)
      | Some b \<Rightarrow>
          (case rq_phone_number b of
             None \<Rightarrow> (error_response 400, a)
           | Some phone_number \<Rightarrow>
               if phone_number = [] then (error_response 400, a)
               else if falsy_str (rq_content b) \<and> \<not> truthy (rq_attachment_url b)
               then (error_response 400, a)
               else
                 (case get_phone_by_number phone_number (store a) of
                    None \<Rightarrow> (error_response 404, a)
                  | Some phone \<Rightarrow>
                      (let message_type = (if ai_active phone then ''ai'' else ''user'') in
                       case create_message phone_number (rq_content b) message_type
                              (rq_attachment_url b) (rq_attachment_full_url b)
                              (rq_attachment_name b) (rq_attachment_type b)
                              (rq_attachment_size b) (store a) of
                         (None, d1) \<Rightarrow> (error_response 500, a\<lparr>store := d1\<rparr>)
                       | (Some m, d1) \<Rightarrow>
                           (let webhook_data = message_webhook_data b message_type phone m email in
                            if emoji_lookup_raises (rq_attachment_type b) then
                              retry_after_exception (JStr phone_number) webhook_data m
                                (a\<lparr>store := d1\<rparr>)
                            else
                            case send_webhook env (JStr ''message'') (JStr phone_number)
                                   webhook_data (hook a) of
                              (True, w1) \<Rightarrow>
                                (\<lparr>status = 200, success = True, message = Some m,
                                  webhook_sent = Some True\<rparr>,
                                 a\<lparr>store := d1, hook := w1\<rparr>)
                            | (False, w1) \<Rightarrow>
                                (case send_webhook_with_retry (JStr ''message'')
                                        (JStr phone_number) webhook_data 2
                                        (a\<lparr>store := d1, hook := w1\<rparr>) of
                                   (None, a1) \<Rightarrow>
                                     (\<lparr>status = 200, success = True, message = Some m,
                                       webhook_sent = Some True\<rparr>, a1)
                                 | (Some e, a1) \<Rightarrow>
                                     retry_after_exception (JStr phone_number) webhook_data m
                                       a1))))))"

section \<open>Attachment download (routes/chat.py)\<close>

definition MAX_UPLOAD_SIZE :: int where
  "MAX_UPLOAD_SIZE = 50 * 1024 * 1024"

definition ALLOWED_EXTENSIONS :: "string list" where
  "ALLOWED_EXTENSIONS =
     [''png'', ''jpg'', ''jpeg'', ''gif'', ''webp'',
      ''mp4'', ''avi'', ''mov'', ''wmv'', ''webm'',
      ''mp3'', ''wav'', ''ogg'', ''m4a'', ''aac'',
      ''pdf'', ''doc'', ''docx'', ''txt'',
      ''zip'', ''rar'']"

text \<open>
  String helpers: \<open>'.' in s\<close>, \<open>s.rsplit('.', 1)[1]\<close> (used only when a dot is there),
  \<open>s.lower()\<close> on ASCII letters, \<open>os.path.basename\<close> and \<open>s.startswith(p)\<close>.
\<close>

definition has_dot :: "string \<Rightarrow> bool" where
  "has_dot s = (CHR ''.'' \<in> set s)"

definition after_last_dot :: "string \<Rightarrow> string" where
  "after_last_dot s = rev (takeWhile (\<lambda>c. c \<noteq> CHR ''.'') (rev s))"

definition lower_char :: "char \<Rightarrow> char" where
  "lower_char c =
     (let n = (of_char c :: nat) in if 65 \<le> n \<and> n \<le> 90 then char_of (n + 32) else c)"

definition py_lower :: "string \<Rightarrow> string" where
  "py_lower s = map lower_char s"

definition basename :: "string \<Rightarrow> string" where
  "basename s = rev (takeWhile (\<lambda>c. c \<noteq> CHR ''/'') (rev s))"

definition startswith :: "string \<Rightarrow> string \<Rightarrow> bool" where
  "startswith s p = (take (length p) s = p)"

definition extension_of :: "string \<Rightarrow> string" where
  "extension_of filename = (if has_dot filename then py_lower (after_last_dot filename) else [])"

definition allowed_file :: "string \<Rightarrow> bool" where
  "allowed_file filename =
     (has_dot filename \<and> py_lower (after_last_dot filename) \<in> set ALLOWED_EXTENSIONS)"

definition get_file_type :: "string \<Rightarrow> string" where
  "get_file_type filename =
     (let extension = extension_of filename in
      if extension \<in> set [''png'', ''jpg'', ''jpeg'', ''gif'', ''webp''] then ''image''
      else if extension \<in> set [''mp4'', ''avi'', ''mov'', ''wmv'', ''webm''] then ''video''
      else if extension \<in> set [''mp3'', ''wav'', ''ogg'', ''m4a'', ''aac''] then ''audio''
      else if extension \<in> set [''pdf''] then ''pdf''
      else if extension \<in> set [''doc'', ''docx'', ''txt''] then ''document''
      else ''file'')"

text \<open>
  \<open>get_file_type\<close> applied to a value that need not be a string: \<open>'.' in v\<close> raises
  \<open>TypeError\<close> on a number or a boolean, and \<open>v.rsplit\<close> raises \<open>AttributeError\<close> on a
  list or dict that contains the dot.
\<close>

fun get_file_type_of :: "jv \<Rightarrow> py_error + string" where
  "get_file_type_of (JStr n) = Inr (get_file_type n)"
| "get_file_type_of (JList xs) = (if JStr ''.'' \<in> set xs then Inl AttributeError else Inr ''file'')"
| "get_file_type_of (JDict kvs) =
     (if ''.'' \<in> set (map fst kvs) then Inl AttributeError else Inr ''file'')"
| "get_file_type_of _ = Inl TypeError"

definition type_extensions :: "(string \<times> string) list" where
  "type_extensions =
     [(''image'', ''jpg''), (''video'', ''mp4''), (''audio'', ''mp3''),
      (''pdf'', ''pdf''), (''document'', ''doc''), (''file'', ''bin'')]"

text \<open>\<open>get_extension_from_type\<close>: \<open>type_extensions.get(file_type, 'bin')\<close>.\<close>

fun get_extension_from_type :: "jv \<Rightarrow> py_error + string" where
  "get_extension_from_type (JStr t) =
     (case map_of type_extensions t of None \<Rightarrow> Inr ''bin'' | Some e \<Rightarrow> Inr e)"
| "get_extension_from_type (JList _) = Inl TypeError"
| "get_extension_from_type (JDict _) = Inl TypeError"
| "get_extension_from_type _ = Inr ''bin''"

text \<open>
  The answer to \<open>requests.get(url, stream=True)\<close> once \<open>raise_for_status()\<close> has passed:
  the \<open>Content-Length\<close> header if there is one, the file name that the regular
  expression of \<open>extract_filename_from_response\<close> finds in \<open>Content-Disposition\<close> (quotes
  stripped; \<open>None\<close> without header or match), what \<open>mimetypes.guess_extension\<close> makes of
  the \<open>Content-Type\<close>, and the chunks that \<open>iter_content\<close> yields.
\<close>

record http_response =
  content_length :: "string option"
  cd_filename :: "string option"
  guessed_extension :: "string option"
  chunks :: "string list"

datatype fetch_outcome = FetchError | Fetched http_response

text \<open>
  What a download reads from its environment: the fate of the GET (\<open>FetchError\<close> is any
  \<open>RequestException\<close>), werkzeug's \<open>secure_filename\<close>,
  \<open>os.path.basename(urlparse(url).path)\<close>, the \<open>uuid4().hex\<close> and time stamp that make the
  stored name unique, and the scheme and host of the current request.
\<close>

record download_env =
  fetch :: fetch_outcome
  secure_filename :: "string \<Rightarrow> string"
  url_basename :: string
  unique_stem :: string
  scheme :: string
  host :: string

text \<open>
  \<open>extract_filename_from_response\<close>: the \<open>Content-Disposition\<close> name first, then the
  steps that follow it (the URL's last path segment, the extension guessed from the
  \<open>Content-Type\<close>, the default).
\<close>

definition filename_from_url_or_type :: "download_env \<Rightarrow> http_response \<Rightarrow> string" where
  "filename_from_url_or_type env resp =
     (if url_basename env \<noteq> [] \<and> has_dot (url_basename env)
      then secure_filename env (url_basename env)
      else (case guessed_extension resp of
              Some e \<Rightarrow> if e \<noteq> [] then ''attachment'' @ e else ''attachment.bin''
            | None \<Rightarrow> ''attachment.bin''))"

definition extract_filename_from_response :: "download_env \<Rightarrow> http_response \<Rightarrow> string" where
  "extract_filename_from_response env resp =
     (case cd_filename resp of
        Some f \<Rightarrow> if f \<noteq> [] then secure_filename env f else filename_from_url_or_type env resp
      | None \<Rightarrow> filename_from_url_or_type env resp)"

text \<open>\<open>extract_filename_from_url\<close>.\<close>

definition extract_filename_from_url :: "download_env \<Rightarrow> string" where
  "extract_filename_from_url env =
     (if url_basename env \<noteq> [] \<and> has_dot (url_basename env)
      then secure_filename env (url_basename env)
      else ''attachment'')"

text \<open>The \<open>success\<close> dictionary of \<open>download_attachment_enhanced\<close>.\<close>

record downloaded =
  dl_url :: string
  dl_full_url :: string
  dl_filename :: jv
  dl_unique_filename :: string
  dl_size :: nat
  dl_type :: jv

datatype download_result = DownloadFailed | Downloaded downloaded

text \<open>
  The file name steps of \<open>download_attachment_enhanced\<close>; \<open>None\<close> is a failure result
  (an exception caught by \<open>except Exception\<close>, or the "File type not allowed" return).
\<close>

definition choose_filename :: "download_env \<Rightarrow> http_response \<Rightarrow> jv \<Rightarrow> string option" where
  "choose_filename env resp original_filename =
     (if truthy original_filename then
        (case original_filename of JStr n \<Rightarrow> Some (secure_filename env n) | _ \<Rightarrow> None)
      else Some (extract_filename_from_response env resp))"

definition check_extension :: "string \<Rightarrow> jv \<Rightarrow> string option" where
  "check_extension filename original_type =
     (if has_dot filename \<and> \<not> allowed_file filename then
        (if (if truthy original_type then original_type = JStr ''file'' else True) then None
         else (case get_extension_from_type original_type of
                 Inl e \<Rightarrow> None
               | Inr ext \<Rightarrow> Some (''attachment.'' @ ext)))
      else Some filename)"

text \<open>
  \<open>download_attachment_enhanced(url, original_filename, original_type, original_size)\<close>
  on the upload directory; what the GET of \<open>url\<close> brings is in \<open>env\<close>. The size that is compared with \<open>MAX_UPLOAD_SIZE\<close> is
  \<open>int(response.headers.get('content-length', original_size or 0))\<close>; the body is then
  written chunk by chunk, skipping empty chunks, and \<open>actual_size\<close> is the size of the
  file written. (A connection that breaks while the body is read is not modelled.)
\<close>

definition download_attachment_enhanced ::
  "download_env \<Rightarrow> string \<Rightarrow> jv \<Rightarrow> jv \<Rightarrow> jv \<Rightarrow> (string \<rightharpoonup> string)
    \<Rightarrow> download_result \<times> (string \<rightharpoonup> string)" where
  "download_attachment_enhanced env url original_filename original_type original_size files =
     (case fetch env of
        FetchError \<Rightarrow> (DownloadFailed, files)
      | Fetched resp \<Rightarrow>
          (case py_int (case content_length resp of
                          Some h \<Rightarrow> JStr h
                        | None \<Rightarrow> py_or original_size (JInt 0)) of
             Inl e \<Rightarrow> (DownloadFailed, files)
           | Inr file_size \<Rightarrow>
               if file_size > MAX_UPLOAD_SIZE then (DownloadFailed, files)
               else
                 (case choose_filename env resp original_filename of
                    None \<Rightarrow> (DownloadFailed, files)
                  | Some filename0 \<Rightarrow>
                      (case check_extension filename0 original_type of
                         None \<Rightarrow> (DownloadFailed, files)
                       | Some filename \<Rightarrow>
                           (let file_extension =
                                  (if has_dot filename then py_lower (after_last_dot filename)
                                   else ''bin'');
                                unique_filename = unique_stem env @ ''.'' @ file_extension;
                                written = concat (filter (\<lambda>chunk. chunk \<noteq> []) (chunks resp));
                                actual_size = length written;
                                determined_type =
                                  (if truthy original_type then original_type
                                   else JStr (get_file_type filename));
                                file_url = ''/chat/uploads/'' @ unique_filename;
                                file_full_url = scheme env @ ''://localhost:5000'' @ file_url
                            in (Downloaded
                                  \<lparr>dl_url = file_url, dl_full_url = file_full_url,
                                   dl_filename = py_or original_filename (JStr filename),
                                   dl_unique_filename = unique_filename,
                                   dl_size = actual_size, dl_type = determined_type\<rparr>,
                                files(unique_filename \<mapsto> written)))))))"

section \<open>The receive route (routes/chat.py)\<close>

text \<open>The five \<open>final_attachment_*\<close> variables of \<open>receive_message\<close>.\<close>

record final_attachment =
  final_attachment_url :: jv
  final_attachment_full_url :: jv
  final_attachment_name :: jv
  final_attachment_type :: jv
  final_attachment_size :: jv

definition no_final_attachment :: final_attachment where
  "no_final_attachment =
     \<lparr>final_attachment_url = JNull, final_attachment_full_url = JNull,
      final_attachment_name = JNull, final_attachment_type = JNull,
      final_attachment_size = JNull\<rparr>"

text \<open>
  The branch for a url that starts with \<open>/chat/uploads/\<close>. The size is read from the
  upload directory when the path is there; for the url \<open>/chat/uploads/\<close> itself the
  basename is empty and the path is the directory. \<open>Inl\<close> is an exception, which the
  handler's outer \<open>except\<close> turns into the answer 500.
\<close>

definition local_attachment ::
  "download_env \<Rightarrow> string \<Rightarrow> jv \<Rightarrow> jv \<Rightarrow> (string \<rightharpoonup> string) \<Rightarrow> py_error + final_attachment" where
  "local_attachment env u name ty files =
     (let final_name = py_or name (JStr (basename u)) in
      case (if truthy ty then Inr ty
            else (case get_file_type_of final_name of Inl e \<Rightarrow> Inl e | Inr t \<Rightarrow> Inr (JStr t))) of
        Inl e \<Rightarrow> Inl e
      | Inr final_type \<Rightarrow>
          Inr \<lparr>final_attachment_url = JStr u,
               final_attachment_full_url = JStr (scheme env @ ''://'' @ host env @ u),
               final_attachment_name = final_name,
               final_attachment_type = final_type,
               final_attachment_size =
                 (case files (basename u) of
                    None \<Rightarrow> JNull
                  | Some bytes \<Rightarrow> JInt (int (length bytes)))\<rparr>)"

text \<open>
  The branch for any other url: one download attempt, and on failure the original url
  with the metadata that came with it.
\<close>

definition external_attachment ::
  "download_env \<Rightarrow> string \<Rightarrow> jv \<Rightarrow> jv \<Rightarrow> jv \<Rightarrow> (string \<rightharpoonup> string)
    \<Rightarrow> final_attachment \<times> (string \<rightharpoonup> string)" where
  "external_attachment env u name ty sz files =
     (case download_attachment_enhanced env u name ty sz files of
        (Downloaded r, files1) \<Rightarrow>
          (\<lparr>final_attachment_url = JStr (dl_url r),
            final_attachment_full_url = JStr (dl_full_url r),
            final_attachment_name = dl_filename r,
            final_attachment_type = dl_type r,
            final_attachment_size = JInt (int (dl_size r))\<rparr>, files1)
      | (DownloadFailed, files1) \<Rightarrow>
          (\<lparr>final_attachment_url = JStr u,
            final_attachment_full_url = JStr u,
            final_attachment_name = py_or name (JStr (extract_filename_from_url env)),
            final_attachment_type = py_or ty (JStr ''file''),
            final_attachment_size = sz\<rparr>, files1))"

text \<open>"Process attachment if provided": \<open>attachment_url.startswith\<close> needs a string.\<close>

definition process_attachment ::
  "download_env \<Rightarrow> jv \<Rightarrow> jv \<Rightarrow> jv \<Rightarrow> jv \<Rightarrow> (string \<rightharpoonup> string)
    \<Rightarrow> py_error + (final_attachment \<times> (string \<rightharpoonup> string))" where
  "process_attachment env url name ty sz files =
     (if \<not> truthy url then Inr (no_final_attachment, files)
      else
        (case url of
           JStr u \<Rightarrow>
             if startswith u ''/chat/uploads/'' then
               (case local_attachment env u name ty files of
                  Inl e \<Rightarrow> Inl e
                | Inr fa \<Rightarrow> Inr (fa, files))
             else Inr (external_attachment env u name ty sz files)
         | _ \<Rightarrow> Inl AttributeError))"

text \<open>
  The route \<open>/chat/receive-message\<close>. \<open>None\<close> for the body stands for a request without
  usable JSON, on which \<open>data.get\<close> raises. The phone number is looked up and created
  before the attachment is processed, so it stays when a later step fails.
\<close>

definition receive_message :: "download_env \<Rightarrow> body option \<Rightarrow> app \<Rightarrow> response \<times> app" where
  "receive_message env data a =
     (case data of
        None \<Rightarrow> (error_response 500, a)
      | Some b \<Rightarrow>
          (case rq_phone_number b of
             None \<Rightarrow> (error_response 400, a)
           | Some phone_number \<Rightarrow>
               if phone_number = [] then (error_response 400, a)
               else if falsy_str (rq_message b) \<and> \<not> truthy (rq_attachment_url b)
               then (error_response 400, a)
               else
                 (case (case get_phone_by_number phone_number (store a) of
                          Some phone \<Rightarrow> (Some phone, store a)
                        | None \<Rightarrow> create_phone_number phone_number (store a)) of
                    (None, d1) \<Rightarrow> (error_response 500, a\<lparr>store := d1\<rparr>)
                  | (Some phone, d1) \<Rightarrow>
                      (case process_attachment env (rq_attachment_url b) (rq_attachment_name b)
                              (rq_attachment_type b) (rq_attachment_size b) (uploads a) of
                         Inl e \<Rightarrow> (error_response 500, a\<lparr>store := d1\<rparr>)
                       | Inr (fa, files1) \<Rightarrow>
                           (case create_message phone_number (rq_message b) ''lead''
                                   (final_attachment_url fa) (final_attachment_full_url fa)
                                   (final_attachment_name fa) (final_attachment_type fa)
                                   (final_attachment_size fa) d1 of
                              (None, d2) \<Rightarrow>
                                (error_response 500, a\<lparr>store := d2, uploads := files1\<rparr>)
                            | (Some m, d2) \<Rightarrow>
                                (\<lparr>status = 200, success = True, message = Some m,
                                  webhook_sent = None\<rparr>,
                                 a\<lparr>store := d2, uploads := files1\<rparr>))))))"

section \<open>States and requests used in the examples\<close>

definition idle_world :: world where
  "idle_world = \<lparr>webhook_failures = 0, last_failure_time = None, posts = [], sleeps = []\<rparr>"

text \<open>One conversation, \<open>+5511999999999\<close>, with the given automation flag, and no message.\<close>

definition demo_app :: "bool \<Rightarrow> app" where
  "demo_app flag =
     \<lparr>store = \<lparr>phone_numbers = [\<lparr>phone_id = 1, number = ''+5511999999999'', ai_active = flag\<rparr>],
               messages = [], available = True, phone_id_seq = 1, message_id_seq = 0,
               stored_number = checked_number,
               stored_message = checked_message\<rparr>,
      hook = idle_world, scheduled = [], uploads = Map.empty, thread_starts = []\<rparr>"

text \<open>A process that knows no phone number yet.\<close>

definition empty_app :: app where
  "empty_app =
     \<lparr>store = \<lparr>phone_numbers = [], messages = [], available = True,
               phone_id_seq = 0, message_id_seq = 0,
               stored_number = checked_number,
               stored_message = checked_message\<rparr>,
      hook = idle_world, scheduled = [], uploads = Map.empty, thread_starts = []\<rparr>"

text \<open>A text-only request body (the text under both keys, \<open>content\<close> and \<open>message\<close>).\<close>

definition text_body :: "string \<Rightarrow> string \<Rightarrow> body" where
  "text_body phone txt =
     \<lparr>rq_phone_number = Some phone, rq_content = Some txt, rq_message = Some txt,
      rq_attachment_url = JNull, rq_attachment_full_url = JNull, rq_attachment_name = JNull,
      rq_attachment_type = JNull, rq_attachment_size = JNull\<rparr>"

text \<open>A configured endpoint whose POST meets the given fate.\<close>

definition demo_env :: "http_outcome \<Rightarrow> call_env" where
  "demo_env fate =
     \<lparr>webhook_url = Some ''http://hook'', now_check = 100, now_iso = ''2024-01-01T00:00:00'',
      outcome = fate, now_fail = 101\<rparr>"

definition demo_download_env :: download_env where
  "demo_download_env =
     \<lparr>fetch = FetchError, secure_filename = (\<lambda>n. n), url_basename = [],
      unique_stem = ''0123abcd_20240101_000000'', scheme = ''http'', host = ''localhost:5000''\<rparr>"

section \<open>Properties of the circuit breaker\<close>









section \<open>Properties of the validation gate\<close>









section \<open>Properties of the envelope\<close>

lemma build_envelope_payload_wins:
  "data k = Some v \<Longrightarrow> build_envelope webhook_type phone_number stamp data k = Some v"
  by (simp add: build_envelope_def map_add_Some_iff)

lemma send_webhook_posts:
  "posts (snd (send_webhook env webhook_type phone_number data s)) = posts s
   \<or> (validate_webhook_data (build_envelope webhook_type phone_number (now_iso env) data)
      \<and> posts (snd (send_webhook env webhook_type phone_number data s))
          = posts s @ [build_envelope webhook_type phone_number (now_iso env) data])"
  by (auto simp: send_webhook_def Let_def is_circuit_broken_def record_webhook_result_def
      split: option.splits prod.splits bool.splits http_outcome.splits if_splits)


text \<open>
  Claim C9. The caller's payload is merged after the generated fields, so a payload key
  named \<open>event_type\<close>, \<open>phone_number\<close> or \<open>timestamp\<close> (or any other) takes the payload's
  value in the envelope; and the envelope that is validated is the one that is posted:
  whenever \<open>send_webhook\<close> issues a POST, its body is that merged envelope and the merged
  envelope passed validation.
\<close>

theorem envelope_merge_precedence:
  "(data k = Some v \<longrightarrow> build_envelope webhook_type phone_number stamp data k = Some v)
   \<and> (posts (snd (send_webhook env webhook_type phone_number data s)) = posts s
      \<or> (validate_webhook_data (build_envelope webhook_type phone_number (now_iso env) data)
         \<and> posts (snd (send_webhook env webhook_type phone_number data s))
             = posts s @ [build_envelope webhook_type phone_number (now_iso env) data]))"
  using build_envelope_payload_wins [of data k v webhook_type phone_number stamp]
    send_webhook_posts [of env webhook_type phone_number data s]
  by blast

text \<open>
  A payload carrying its own \<open>phone_number\<close>: the generated number \<open>123\<close> would fail
  validation, the payload's number passes, and the posted body holds the payload's.
\<close>

theorem envelope_merge_precedence_witness:
  "build_envelope (JStr ''message'') (JStr ''123'') ''2024-01-01T00:00:00''
      [''phone_number'' \<mapsto> JStr ''+5511999999999''] ''phone_number''
     = Some (JStr ''+5511999999999'')
   \<and> map (\<lambda>e. e ''phone_number'')
       (posts (snd (send_webhook
         \<lparr>webhook_url = Some ''http://hook'', now_check = 130,
          now_iso = ''2024-01-01T00:00:00'', outcome = Responded 200, now_fail = 131\<rparr>
         (JStr ''message'') (JStr ''123'') [''phone_number'' \<mapsto> JStr ''+5511999999999'']
         \<lparr>webhook_failures = 0, last_failure_time = None, posts = [], sleeps = []\<rparr>)))
     = [Some (JStr ''+5511999999999'')]"
proof -
  let ?env = "\<lparr>webhook_url = Some ''http://hook'', now_check = 130,
     now_iso = ''2024-01-01T00:00:00'', outcome = Responded 200, now_fail = 131\<rparr>"
  let ?s = "\<lparr>webhook_failures = 0, last_failure_time = None, posts = [], sleeps = []\<rparr>"
  let ?data = "[''phone_number'' \<mapsto> JStr ''+5511999999999'']"
  have sent: "posts (snd (send_webhook ?env (JStr ''message'') (JStr ''123'') ?data ?s)) \<noteq> posts ?s"
    by (simp add: send_webhook_def is_circuit_broken_def MAX_FAILURES_BEFORE_CIRCUIT_BREAK_def
        build_envelope_def validate_webhook_data_def required_fields_def field_present_def
        raises_for_status_def record_webhook_result_def)
  show ?thesis
    using sent envelope_merge_precedence [of ?data "''phone_number''" "JStr ''+5511999999999''"
        "JStr ''message''" "JStr ''123''" "''2024-01-01T00:00:00''" ?env ?s]
    by (auto simp: build_envelope_def)
qed

section \<open>Properties of the retry loop\<close>

lemma is_circuit_broken_sleeps: "sleeps (snd (is_circuit_broken now s)) = sleeps s"
  by (simp add: is_circuit_broken_def)










section \<open>Properties of result recording in the retry path\<close>






section \<open>Properties of the attachment cleaner\<close>










text \<open>
  \<open>int()\<close> on strings: the separator 28 is not skipped although \<open>str.strip()\<close> removes it,
  133 and 160 are skipped, single underscores are allowed, and 4301 digits are too many.
\<close>

lemma int_of_string_examples:
  "py_int (JStr [CHR 0x1C, CHR ''5'']) = Inl ValueError
   \<and> py_int (JStr [CHR 0x85, CHR ''5'', CHR 0xA0]) = Inr 5
   \<and> py_int (JStr '' -1_000 '') = Inr (- 1000)
   \<and> py_int (JStr ''5__0'') = Inl ValueError
   \<and> clean_size (JStr [CHR 0x1C, CHR ''5'']) = Inr None"
  by (simp add: py_int_str_def int_strip_def is_int_space_def parse_unsigned_def digit_val_def
      digit_count_def INT_MAX_STR_DIGITS_def clean_size_def)

lemma int_of_long_string:
  "py_int (JStr (replicate 4301 (CHR ''1''))) = Inl ValueError"
proof -
  let ?one = "CHR ''1''"
  have unfold: "replicate 4301 ?one = ?one # replicate 4300 ?one"
    using replicate_Suc [of 4300 ?one] by simp
  have strip: "int_strip (replicate 4301 ?one) = replicate 4301 ?one"
    by (simp add: int_strip_def is_int_space_def dropWhile_replicate)
  have count: "digit_count (replicate 4301 ?one) = 4301"
    by (simp add: digit_count_def digit_val_def)
  have "parse_unsigned (?one # replicate 4300 ?one) = None"
    using count unfolding unfold by (simp add: parse_unsigned_def INT_MAX_STR_DIGITS_def)
  then have "py_int_str (replicate 4301 ?one) = None"
    unfolding py_int_str_def strip unfolding unfold by simp
  then show ?thesis by simp
qed




section \<open>Properties of the attachment download\<close>

text \<open>
  Claim C6 says that a remote file of more than 50 MiB is never saved and that the
  download returns a failure for it. The size that is checked is the declared one. Here
  the response has no \<open>Content-Length\<close> header and the caller passed no size, so the
  declared size is 0; the body has 52428801 bytes, one more than \<open>MAX_UPLOAD_SIZE\<close>. The
  download succeeds and the whole body is in the upload directory.
\<close>

theorem download_size_ceiling_failing_input:
  "download_attachment_enhanced
     \<lparr>fetch = Fetched \<lparr>content_length = None, cd_filename = None, guessed_extension = None,
                       chunks = [replicate 52428801 (CHR ''x'')]\<rparr>,
      secure_filename = (\<lambda>n. n), url_basename = ''video.mp4'',
      unique_stem = ''0123abcd_20240101_000000'', scheme = ''http'', host = ''localhost:5000''\<rparr>
     ''https://cdn.example/video.mp4'' JNull JNull JNull Map.empty
   = (Downloaded
        \<lparr>dl_url = ''/chat/uploads/0123abcd_20240101_000000.mp4'',
         dl_full_url = ''http://localhost:5000/chat/uploads/0123abcd_20240101_000000.mp4'',
         dl_filename = JStr ''video.mp4'',
         dl_unique_filename = ''0123abcd_20240101_000000.mp4'',
         dl_size = 52428801, dl_type = JStr ''video''\<rparr>,
      [''0123abcd_20240101_000000.mp4'' \<mapsto> replicate 52428801 (CHR ''x'')])
   \<and> int (length (replicate 52428801 (CHR ''x''))) > MAX_UPLOAD_SIZE"
  by (simp add: download_attachment_enhanced_def py_or_def MAX_UPLOAD_SIZE_def choose_filename_def
     extract_filename_from_response_def filename_from_url_or_type_def has_dot_def
     check_extension_def allowed_file_def after_last_dot_def py_lower_def lower_char_def
     ALLOWED_EXTENSIONS_def get_file_type_def extension_of_def Let_def)

section \<open>Properties of message creation\<close>

lemma create_phone_number_messages:
  "messages (snd (create_phone_number n d)) = messages d"
  by (simp add: create_phone_number_def Let_def split: option.splits)

lemma create_message_stored:
  assumes "create_message pn c mt url full_url name ty sz d = (Some m, d1)"
  shows "msg_type m = mt \<and> messages d1 = messages d @ [m]"
proof -
  have "create_message pn c mt url full_url name ty sz d = (Some m, d1)
    \<longrightarrow> msg_type m = mt \<and> messages d1 = messages d @ [m]"
    using create_phone_number_messages [of pn d]
    by (auto simp: create_message_def Let_def
        split: if_splits option.splits prod.splits sum.splits)
  with assms show ?thesis by blast
qed






section \<open>Properties of the thread start\<close>

lemma send_webhook_with_retry_cases:
  "send_webhook_with_retry webhook_type phone_number data max_retries a =
    (if start_succeeds 0 a
     then (None, a\<lparr>scheduled := scheduled a @
                      [\<lparr>job_webhook_type = webhook_type, job_phone_number = phone_number,
                        job_data = data, job_max_retries = max_retries\<rparr>],
                    thread_starts := tl (thread_starts a)\<rparr>)
     else (Some RuntimeError, a\<lparr>thread_starts := tl (thread_starts a)\<rparr>))"
  by (cases "thread_starts a")
    (simp_all add: send_webhook_with_retry_def start_succeeds_def Let_def)

lemma start_succeeds_tl:
  "start_succeeds k (a\<lparr>thread_starts := tl (thread_starts a)\<rparr>) = start_succeeds (Suc k) a"
  by (cases "thread_starts a") (simp_all add: start_succeeds_def)

lemma retry_after_exception_cases:
  "retry_after_exception phone_number webhook_data m a =
    (\<lparr>status = 200, success = True, message = Some m,
      webhook_sent = Some (start_succeeds 0 a)\<rparr>,
     a\<lparr>scheduled := scheduled a @
           (if start_succeeds 0 a
            then [\<lparr>job_webhook_type = JStr ''message'', job_phone_number = phone_number,
                   job_data = webhook_data, job_max_retries = 1\<rparr>]
            else []),
       thread_starts := tl (thread_starts a)\<rparr>)"
  by (simp add: retry_after_exception_def send_webhook_with_retry_cases)

section \<open>Properties of the handlers' answers\<close>

lemma error_response_no_message: "message (error_response code) = None"
  by (simp add: error_response_def)

text \<open>
  What a \<open>send_message\<close> that answers with a message has done: the phone was known, the
  message was created with the type read off its flag, and the webhook step took one of
  its six ways.
\<close>

lemma send_message_success:
  assumes "send_message env email data a = (r, a')" and "message r = Some m"
  shows "\<exists>b pn phone wd.
    data = Some b \<and> rq_phone_number b = Some pn \<and> pn \<noteq> []
    \<and> get_phone_by_number pn (store a) = Some phone
    \<and> create_message pn (rq_content b) (if ai_active phone then ''ai'' else ''user'')
          (rq_attachment_url b) (rq_attachment_full_url b) (rq_attachment_name b)
          (rq_attachment_type b) (rq_attachment_size b) (store a) = (Some m, store a')
    \<and> wd = message_webhook_data b (if ai_active phone then ''ai'' else ''user'') phone m email
    \<and> status r = 200
    \<and> (if emoji_lookup_raises (rq_attachment_type b) then
          webhook_sent r = Some (start_succeeds 0 a)
          \<and> scheduled a' = scheduled a @
               (if start_succeeds 0 a
                then [\<lparr>job_webhook_type = JStr ''message'', job_phone_number = JStr pn,
                       job_data = wd, job_max_retries = 1\<rparr>]
                else [])
        else if fst (send_webhook env (JStr ''message'') (JStr pn) wd (hook a)) then
          webhook_sent r = Some True \<and> scheduled a' = scheduled a
        else if start_succeeds 0 a then
          webhook_sent r = Some True
          \<and> scheduled a' = scheduled a @
               [\<lparr>job_webhook_type = JStr ''message'', job_phone_number = JStr pn,
                 job_data = wd, job_max_retries = 2\<rparr>]
        else
          webhook_sent r = Some (start_succeeds 1 a)
          \<and> scheduled a' = scheduled a @
               (if start_succeeds 1 a
                then [\<lparr>job_webhook_type = JStr ''message'', job_phone_number = JStr pn,
                       job_data = wd, job_max_retries = 1\<rparr>]
                else []))"
proof (cases data)
  case None
  with assms show ?thesis by (auto simp: send_message_def error_response_def)
next
  case (Some b)
  show ?thesis
  proof (cases "rq_phone_number b")
    case None
    with assms Some show ?thesis by (auto simp: send_message_def error_response_def)
  next
    case pn: (Some pn)
    show ?thesis
    proof (cases "get_phone_by_number pn (store a)")
      case None
      with assms Some pn show ?thesis
        by (auto simp: send_message_def error_response_def split: if_splits)
    next
      case ph: (Some phone)
      let ?mt = "if ai_active phone then ''ai'' else ''user''"
      obtain mo d1 where cm: "create_message pn (rq_content b) ?mt
          (rq_attachment_url b) (rq_attachment_full_url b) (rq_attachment_name b)
          (rq_attachment_type b) (rq_attachment_size b) (store a) = (mo, d1)"
        by (cases "create_message pn (rq_content b) ?mt
          (rq_attachment_url b) (rq_attachment_full_url b) (rq_attachment_name b)
          (rq_attachment_type b) (rq_attachment_size b) (store a)")
      show ?thesis
      proof (cases mo)
        case None
        with assms Some pn ph cm show ?thesis
          by (auto simp: send_message_def error_response_def Let_def split: if_splits)
      next
        case m': (Some m')
        let ?wd = "message_webhook_data b ?mt phone m' email"
        obtain ok w1 where sw: "send_webhook env (JStr ''message'') (JStr pn) ?wd (hook a)
            = (ok, w1)"
          by (cases "send_webhook env (JStr ''message'') (JStr pn) ?wd (hook a)")
        have st: "\<And>k d w. start_succeeds k (a\<lparr>store := d, hook := w\<rparr>) = start_succeeds k a"
          "\<And>k d. start_succeeds k (a\<lparr>store := d\<rparr>) = start_succeeds k a"
          "\<And>k d w ts. start_succeeds k (a\<lparr>store := d, hook := w, thread_starts := ts\<rparr>)
              = start_succeeds k (a\<lparr>thread_starts := ts\<rparr>)"
          by (simp_all add: start_succeeds_def)
        from assms Some pn ph cm m' sw show ?thesis
          by (cases ok)
            (auto simp: send_message_def error_response_def Let_def
              send_webhook_with_retry_cases retry_after_exception_cases st start_succeeds_tl
              split: if_splits)
      qed
    qed
  qed
qed

lemma receive_message_success:
  assumes "receive_message env data a = (r, a')" and "message r = Some m"
  shows "msg_type m = ''lead'' \<and> status r = 200
    \<and> messages (store a') = messages (store a) @ [m]"
proof (cases data)
  case None
  with assms show ?thesis by (auto simp: receive_message_def error_response_def)
next
  case (Some b)
  show ?thesis
  proof (cases "rq_phone_number b")
    case None
    with assms Some show ?thesis by (auto simp: receive_message_def error_response_def)
  next
    case pn: (Some pn)
    obtain po d1 where gc: "(case get_phone_by_number pn (store a) of
          Some phone \<Rightarrow> (Some phone, store a)
        | None \<Rightarrow> create_phone_number pn (store a)) = (po, d1)"
      by (cases "(case get_phone_by_number pn (store a) of
          Some phone \<Rightarrow> (Some phone, store a)
        | None \<Rightarrow> create_phone_number pn (store a))")
    have md1: "messages d1 = messages (store a)"
      using gc create_phone_number_messages [of pn "store a"]
      by (auto split: option.splits)
    show ?thesis
    proof (cases po)
      case None
      with assms Some pn gc show ?thesis
        by (auto simp: receive_message_def error_response_def split: if_splits)
    next
      case ph: (Some phone)
      show ?thesis
      proof (cases "process_attachment env (rq_attachment_url b) (rq_attachment_name b)
            (rq_attachment_type b) (rq_attachment_size b) (uploads a)")
        case (Inl e)
        with assms Some pn gc ph show ?thesis
          by (auto simp: receive_message_def error_response_def split: if_splits)
      next
        case (Inr p)
        obtain fa files1 where p: "p = (fa, files1)" by (cases p)
        obtain mo d2 where cm: "create_message pn (rq_message b) ''lead''
            (final_attachment_url fa) (final_attachment_full_url fa)
            (final_attachment_name fa) (final_attachment_type fa)
            (final_attachment_size fa) d1 = (mo, d2)"
          by (cases "create_message pn (rq_message b) ''lead''
            (final_attachment_url fa) (final_attachment_full_url fa)
            (final_attachment_name fa) (final_attachment_type fa)
            (final_attachment_size fa) d1")
        show ?thesis
        proof (cases mo)
          case None
          with assms Some pn gc ph Inr p cm show ?thesis
            by (auto simp: receive_message_def error_response_def split: if_splits)
        next
          case m': (Some m')
          from assms Some pn gc ph Inr p cm m'
          have "m' = m" and "store a' = d2" and "status r = 200"
            by (auto simp: receive_message_def error_response_def split: if_splits)
          with cm m' create_message_stored [of pn "rq_message b" "''lead''"
              "final_attachment_url fa" "final_attachment_full_url fa"
              "final_attachment_name fa" "final_attachment_type fa"
              "final_attachment_size fa" d1 m d2] md1
          show ?thesis by simp
        qed
      qed
    qed
  qed
qed

text \<open>
  Claim C2. A message created by the send route has type \<open>ai\<close> exactly when the phone's
  \<open>ai_active\<close> flag, read when the request is handled, is true, and type \<open>user\<close>
  otherwise; a message created by the receive route has type \<open>lead\<close> whatever the flag
  is. In both cases the message returned is the one appended to the table.
\<close>

theorem message_classification:
  "(send_message env email data a = (r, a') \<and> message r = Some m \<longrightarrow>
      (\<exists>b pn phone. data = Some b \<and> rq_phone_number b = Some pn
          \<and> get_phone_by_number pn (store a) = Some phone
          \<and> (msg_type m = ''ai'' \<longleftrightarrow> ai_active phone)
          \<and> (msg_type m = ''user'' \<longleftrightarrow> \<not> ai_active phone))
      \<and> messages (store a') = messages (store a) @ [m])
   \<and> (receive_message denv data a = (r2, a2) \<and> message r2 = Some m2 \<longrightarrow>
      msg_type m2 = ''lead'' \<and> messages (store a2) = messages (store a) @ [m2])"
proof (intro conjI impI)
  assume h: "send_message env email data a = (r, a') \<and> message r = Some m"
  then obtain b pn phone where f: "data = Some b" "rq_phone_number b = Some pn"
    "get_phone_by_number pn (store a) = Some phone"
    and cm: "create_message pn (rq_content b) (if ai_active phone then ''ai'' else ''user'')
          (rq_attachment_url b) (rq_attachment_full_url b) (rq_attachment_name b)
          (rq_attachment_type b) (rq_attachment_size b) (store a) = (Some m, store a')"
    using send_message_success [of env email data a r a' m] by auto
  note st = create_message_stored [OF cm]
  from st have "(msg_type m = ''ai'' \<longleftrightarrow> ai_active phone)
      \<and> (msg_type m = ''user'' \<longleftrightarrow> \<not> ai_active phone)" by auto
  with f show "\<exists>b pn phone. data = Some b \<and> rq_phone_number b = Some pn
          \<and> get_phone_by_number pn (store a) = Some phone
          \<and> (msg_type m = ''ai'' \<longleftrightarrow> ai_active phone)
          \<and> (msg_type m = ''user'' \<longleftrightarrow> \<not> ai_active phone)" by blast
  from st show "messages (store a') = messages (store a) @ [m]" by simp
next
  assume h: "receive_message denv data a = (r2, a2) \<and> message r2 = Some m2"
  then show "msg_type m2 = ''lead''"
    using receive_message_success by blast
  from h show "messages (store a2) = messages (store a) @ [m2]"
    using receive_message_success by blast
qed

text \<open>The definitions that the examples evaluate.\<close>

lemmas eval_defs = send_message_def receive_message_def demo_app_def empty_app_def
  text_body_def demo_env_def demo_download_env_def idle_world_def get_phone_by_number_def
  create_phone_number_def create_message_def validate_message_type_def
  clean_attachment_data_def falsy_str_def process_attachment_def no_final_attachment_def
  no_attachment_def send_webhook_def is_circuit_broken_def
  MAX_FAILURES_BEFORE_CIRCUIT_BREAK_def build_envelope_def validate_webhook_data_def
  required_fields_def field_present_def raises_for_status_def record_webhook_result_def
  message_webhook_data_def opt_str_def send_webhook_with_retry_def retry_after_exception_def
  emoji_lookup_raises_def error_response_def checked_number_def checked_message_def
  fits_def fits_opt_def INTEGER_MAX_def Let_def

text \<open>
  The spec's scenario: with the flag off a sent \<open>hello\<close> is a \<open>user\<close> message, with the
  flag on it is an \<open>ai\<close> message, and a received \<open>reply\<close> is a \<open>lead\<close> message although
  the flag is on.
\<close>

theorem message_classification_witness:
  "map_option msg_type (message (fst (send_message (demo_env (Responded 200)) ''op@example.com''
       (Some (text_body ''+5511999999999'' ''hello'')) (demo_app False)))) = Some ''user''
   \<and> map_option msg_type (message (fst (send_message (demo_env (Responded 200)) ''op@example.com''
       (Some (text_body ''+5511999999999'' ''hi'')) (demo_app True)))) = Some ''ai''
   \<and> map_option msg_type (message (fst (receive_message demo_download_env
       (Some (text_body ''+5511999999999'' ''reply'')) (demo_app True)))) = Some ''lead''"
proof -
  let ?env = "demo_env (Responded 200)" and ?pn = "''+5511999999999''"
  let ?s1 = "send_message ?env ''op@example.com'' (Some (text_body ?pn ''hello'')) (demo_app False)"
  let ?s2 = "send_message ?env ''op@example.com'' (Some (text_body ?pn ''hi'')) (demo_app True)"
  let ?s3 = "receive_message demo_download_env (Some (text_body ?pn ''reply'')) (demo_app True)"
  have ph: "\<And>flag. get_phone_by_number ?pn (store (demo_app flag))
      = Some \<lparr>phone_id = 1, number = ?pn, ai_active = flag\<rparr>"
    by (simp add: get_phone_by_number_def demo_app_def)
  have pn: "\<And>t. rq_phone_number (text_body ?pn t) = Some ?pn" by (simp add: text_body_def)
  \<comment> \<open>flag off\<close>
  obtain m1 where m1: "message (fst ?s1) = Some m1" by (simp add: eval_defs)
  have "?s1 = (fst ?s1, snd ?s1) \<and> message (fst ?s1) = Some m1" using m1 by simp
  with message_classification [of ?env "''op@example.com''" "Some (text_body ?pn ''hello'')"
      "demo_app False" "fst ?s1" "snd ?s1" m1]
  have t1: "msg_type m1 = ''user''" by (auto simp: ph pn)
  \<comment> \<open>flag on\<close>
  obtain m2 where m2: "message (fst ?s2) = Some m2" by (simp add: eval_defs)
  have "?s2 = (fst ?s2, snd ?s2) \<and> message (fst ?s2) = Some m2" using m2 by simp
  with message_classification [of ?env "''op@example.com''" "Some (text_body ?pn ''hi'')"
      "demo_app True" "fst ?s2" "snd ?s2" m2]
  have t2: "msg_type m2 = ''ai''" by (auto simp: ph pn)
  \<comment> \<open>inbound\<close>
  obtain m3 where m3: "message (fst ?s3) = Some m3" by (simp add: eval_defs)
  have "?s3 = (fst ?s3, snd ?s3) \<and> message (fst ?s3) = Some m3" using m3 by simp
  with message_classification [of _ _ "Some (text_body ?pn ''reply'')" "demo_app True" _ _ _
      demo_download_env "fst ?s3" "snd ?s3" m3]
  have t3: "msg_type m3 = ''lead''" by blast
  show ?thesis using m1 t1 m2 t2 m3 t3 by simp
qed

section \<open>Properties of the send route's answer\<close>




section \<open>Properties of conversation creation\<close>














end
